theory Spec2Isabelle
  imports
    Complex_Main
    "HOL-Library.Word"
    "HOL-Library.Sublist"
    "HOL-Library.Log_Nat"
begin

section \<open>The vips processor: thumbnail, crop and error classification\<close>

text \<open>
  A shallow embedding of the Go package \<open>vipsprocessor\<close> (the file that declares
  \<open>Processor\<close>, \<open>NewThumbnail\<close>, \<open>FocalThumbnail\<close>, \<open>animatedThumbnailWithCrop\<close>,
  \<open>CheckResolution\<close>, \<open>recalculateImage\<close> and \<open>WrapErr\<close>).

  Go's \<open>int\<close> is a 64-bit two's complement integer: it is a \<open>64 word\<close>, read with
  \<open>sint\<close> and compared with \<open><s\<close> and \<open>\<le>s\<close>; \<open>+\<close>, \<open>-\<close> and \<open>*\<close> wrap around as Go's do.
  Go strings are byte strings: \<open>string\<close>, one \<open>char\<close> per byte.
  Calls that leave the package (closing a handle, reporting to Sentry, the libvips
  operations) are recorded, in order, in a trace that every effectful function takes and
  returns.
\<close>

type_synonym go_int = "64 word"

subsection \<open>Errors\<close>

text \<open>
  Modelled from the spec: the struct \<open>imagor.Error\<close> and its constructor
  \<open>imagor.NewError(msg, code)\<close> are declared outside the files at hand; an
  \<open>imagor.Error\<close> carries a message and a status code.
\<close>

datatype imagor_Error = NewError (Message: string) (Code: go_int)

text \<open>
  A Go \<open>error\<close> value is either an \<open>imagor.Error\<close> (the type assertion
  \<open>err.(imagor.Error)\<close> succeeds) or some other error, of which the code reads only the
  text \<open>err.Error()\<close>. The \<open>nil\<close> error is \<open>None\<close> of \<open>go_error option\<close>.
\<close>

datatype go_error = ImagorError imagor_Error | OtherError string

text \<open>
  The package-level error values \<open>imagor.ErrNotFound\<close>, \<open>imagor.ErrUnsupportedFormat\<close>
  and \<open>imagor.ErrMaxResolutionExceeded\<close> are declared outside the files at hand too:
  they are parameters of the model, and nothing is assumed about their messages or codes.
\<close>

record imagor_pkg =
  ErrNotFound :: imagor_Error
  ErrUnsupportedFormat :: imagor_Error
  ErrMaxResolutionExceeded :: imagor_Error

subsection \<open>The image handle and the processor\<close>

text \<open>
  \<open>*vips.Image\<close> is read through the accessors \<open>Width()\<close>, \<open>Height()\<close>,
  \<open>PageHeight()\<close>, \<open>Pages()\<close> and \<open>Orientation()\<close>, each a Go \<open>int\<close>. A \<open>nil\<close>
  pointer is \<open>None\<close> of \<open>Image option\<close>.
\<close>

record Image =
  Width :: go_int
  Height :: go_int
  PageHeight :: go_int
  Pages :: go_int
  Orientation :: go_int

datatype Interesting =
  InterestingNone | InterestingCentre | InterestingEntropy | InterestingAttention
  | InterestingLow | InterestingHigh | InterestingAll

datatype Size = SizeBoth | SizeUp | SizeDown | SizeForce

text \<open>
  \<open>vips.ThumbnailImageOptions\<close>, with the fields the package sets. \<open>FocalThumbnail\<close>
  leaves \<open>Size\<close> unset: \<open>None\<close>.
\<close>

record ThumbnailImageOptions =
  Height_opt :: go_int
  Size_opt :: "Size option"
  Crop_opt :: Interesting

text \<open>\<open>vips.LoadOptions\<close>, with the fields the package sets; Go zero-initialises them.\<close>

record LoadOptions =
  Dpi :: go_int
  Unlimited_opt :: bool
  Page :: go_int
  N :: go_int

definition LoadOptions_zero :: LoadOptions where
  "LoadOptions_zero = \<lparr>Dpi = 0, Unlimited_opt = False, Page = 0, N = 0\<rparr>"

datatype BlobType =
  BlobTypeEmpty | BlobTypeMemory | BlobTypeJPEG | BlobTypePNG | BlobTypeGIF
  | BlobTypeWEBP | BlobTypePDF | BlobTypeOther

text \<open>
  \<open>*imagor.Blob\<close> is declared outside the files at hand. The record holds what the
  package asks of a blob: the answers of \<open>IsEmpty()\<close>, \<open>BlobType()\<close>,
  \<open>SupportsAnimation()\<close> and \<open>Size()\<close>, and the errors, if any, of \<open>ReadAll()\<close> and
  \<open>NewReader()\<close>. The bytes themselves stay with the blob: the loaders below are given
  the blob.
\<close>

record Blob =
  IsEmpty :: bool
  BlobType_of :: BlobType
  SupportsAnimation :: bool
  Size_of :: go_int
  ReadAll_err :: "go_error option"
  NewReader_err :: "go_error option"

text \<open>
  The fields of \<open>Processor\<close> that the modelled functions read. A \<open>FallbackFunc\<close>
  takes the blob and the load options and returns an image or an error; \<open>nil\<close> is
  \<open>None\<close>.
\<close>

record Processor =
  FallbackFunc :: "(Blob \<Rightarrow> LoadOptions \<Rightarrow> go_error + Image) option"
  MaxWidth :: go_int
  MaxHeight :: go_int
  MaxResolution :: go_int
  Unlimited :: bool
  PNGBufferThreshold :: go_int

text \<open>
  The operations of the libvips binding. Their results are parameters of the model: a
  loader returns an image or an error; \<open>ThumbnailImage\<close> and \<open>ExtractAreaMultiPage\<close>
  either fail and leave the handle as it was, or succeed and leave the handle holding the
  new image.
\<close>

record vips_lib =
  vips_NewImageFromMemory :: "Blob \<Rightarrow> go_error + Image"
  vips_NewImageFromBuffer :: "Blob \<Rightarrow> LoadOptions \<Rightarrow> go_error + Image"
  vips_NewImageFromSource :: "Blob \<Rightarrow> LoadOptions \<Rightarrow> go_error + Image"
  vips_NewThumbnailSource ::
    "Blob \<Rightarrow> go_int \<Rightarrow> go_int \<Rightarrow> Interesting \<Rightarrow> Size \<Rightarrow> LoadOptions \<Rightarrow> go_error + Image"
  vips_ThumbnailImage :: "Image \<Rightarrow> go_int \<Rightarrow> ThumbnailImageOptions \<Rightarrow> go_error + Image"
  vips_ExtractAreaMultiPage ::
    "Image \<Rightarrow> go_int \<Rightarrow> go_int \<Rightarrow> go_int \<Rightarrow> go_int \<Rightarrow> go_error + Image"

subsection \<open>The trace of outside calls\<close>

datatype event =
    Close Image
  | CaptureException go_error
  | NewImageFromMemory
  | NewImageFromBuffer LoadOptions
  | NewImageFromSource LoadOptions
  | SourceClose
  | Fallback LoadOptions
  | NewThumbnailSource go_int go_int Interesting Size LoadOptions
  | ThumbnailImage Image go_int ThumbnailImageOptions
  | ExtractAreaMultiPage Image go_int go_int go_int go_int

type_synonym trace = "event list"

subsection \<open>\<open>strings.TrimSpace\<close>, \<open>strings.HasPrefix\<close>, \<open>strings.HasSuffix\<close>\<close>

text \<open>
  \<open>strings.TrimSpace\<close> removes leading and trailing white space as Unicode defines it.
  On the bytes of a string these are the UTF-8 encodings of the code points
  U+0009 to U+000D, U+0020, U+0085, U+00A0, U+1680, U+2000 to U+200A, U+2028, U+2029,
  U+202F, U+205F and U+3000. An invalid or any other encoding stops the trimming.
\<close>

definition space_runes :: "nat list list" where
  "space_runes =
     [[9], [10], [11], [12], [13], [32],
      [194, 133], [194, 160],
      [225, 154, 128],
      [226, 128, 128], [226, 128, 129], [226, 128, 130], [226, 128, 131],
      [226, 128, 132], [226, 128, 133], [226, 128, 134], [226, 128, 135],
      [226, 128, 136], [226, 128, 137], [226, 128, 138],
      [226, 128, 168], [226, 128, 169], [226, 128, 175],
      [226, 129, 159],
      [227, 128, 128]]"

definition leading_space :: "string \<Rightarrow> nat" where
  "leading_space s =
     (case find (\<lambda>r. prefix r (map of_char s)) space_runes of
        Some r \<Rightarrow> length r
      | None \<Rightarrow> 0)"

definition trailing_space :: "string \<Rightarrow> nat" where
  "trailing_space s =
     (case find (\<lambda>r. suffix r (map of_char s)) space_runes of
        Some r \<Rightarrow> length r
      | None \<Rightarrow> 0)"

function TrimLeftSpace :: "string \<Rightarrow> string" where
  "TrimLeftSpace s =
     (if leading_space s = 0 then s else TrimLeftSpace (drop (leading_space s) s))"
  by pat_completeness auto
termination
proof (relation "measure length")
  show "wf (measure length)" by simp
next
  fix s :: string
  assume nz: "leading_space s \<noteq> 0"
  have "leading_space s \<le> length s"
  proof (cases "find (\<lambda>r. prefix r (map of_char s :: nat list)) space_runes")
    case None
    then show ?thesis by (simp add: leading_space_def)
  next
    case (Some r)
    then have "prefix r (map of_char s :: nat list)"
      by (auto simp: find_Some_iff)
    then have "length r \<le> length s"
      by (auto dest: prefix_length_le)
    with Some show ?thesis by (simp add: leading_space_def)
  qed
  with nz show "(drop (leading_space s) s, s) \<in> measure length" by simp
qed

function TrimRightSpace :: "string \<Rightarrow> string" where
  "TrimRightSpace s =
     (if trailing_space s = 0 then s
      else TrimRightSpace (take (length s - trailing_space s) s))"
  by pat_completeness auto
termination
proof (relation "measure length")
  show "wf (measure length)" by simp
next
  fix s :: string
  assume nz: "trailing_space s \<noteq> 0"
  have "trailing_space s \<le> length s"
  proof (cases "find (\<lambda>r. suffix r (map of_char s :: nat list)) space_runes")
    case None
    then show ?thesis by (simp add: trailing_space_def)
  next
    case (Some r)
    then have "suffix r (map of_char s :: nat list)"
      by (auto simp: find_Some_iff)
    then have "length r \<le> length s"
      by (auto dest: suffix_length_le)
    with Some show ?thesis by (simp add: trailing_space_def)
  qed
  with nz show "(take (length s - trailing_space s) s, s) \<in> measure length" by simp
qed

declare TrimLeftSpace.simps [simp del]
declare TrimRightSpace.simps [simp del]

definition TrimSpace :: "string \<Rightarrow> string" where
  "TrimSpace s = TrimRightSpace (TrimLeftSpace s)"

definition HasPrefix :: "string \<Rightarrow> string \<Rightarrow> bool" where
  "HasPrefix s p = prefix p s"

definition HasSuffix :: "string \<Rightarrow> string \<Rightarrow> bool" where
  "HasSuffix s p = suffix p s"

subsection \<open>\<open>WrapErr\<close>\<close>

text \<open>
  \<open>WrapErr\<close> returns \<open>nil\<close> for \<open>nil\<close>, an \<open>imagor.Error\<close> as it is, the unsupported
  format error for libvips's "not in a known format" message, and otherwise reports the
  error to Sentry and wraps its trimmed message with code 406.
\<close>

definition WrapErr :: "imagor_pkg \<Rightarrow> go_error option \<Rightarrow> trace \<Rightarrow> go_error option \<times> trace" where
  "WrapErr imagor err tr =
     (case err of
        None \<Rightarrow> (None, tr)
      | Some (ImagorError e) \<Rightarrow> (Some (ImagorError e), tr)
      | Some (OtherError text) \<Rightarrow>
          (let msg = TrimSpace text in
           if HasPrefix msg ''VipsForeignLoad:'' \<and> HasSuffix msg ''is not in a known format''
           then (Some (ImagorError (ErrUnsupportedFormat imagor)), tr)
           else (Some (ImagorError (NewError msg 406)),
                 tr @ [CaptureException (OtherError text)])))"

subsection \<open>\<open>CheckResolution\<close>\<close>

definition CheckResolution ::
  "imagor_pkg \<Rightarrow> Processor \<Rightarrow> Image option \<Rightarrow> go_error option \<Rightarrow> trace
     \<Rightarrow> (Image option \<times> go_error option) \<times> trace" where
  "CheckResolution imagor v img err tr =
     (if err \<noteq> None \<or> img = None then ((img, err), tr)
      else (case img of
              None \<Rightarrow> ((img, err), tr)
            | Some i \<Rightarrow>
                if \<not> Unlimited v \<and>
                   (MaxWidth v <s Width i \<or> MaxHeight v <s PageHeight i \<or>
                    MaxResolution v <s Width i * Height i)
                then ((None, Some (ImagorError (ErrMaxResolutionExceeded imagor))),
                      tr @ [Close i])
                else ((Some i, None), tr)))"

subsection \<open>Multi-page requests\<close>

definition isMultiPage :: "Blob option \<Rightarrow> go_int \<Rightarrow> go_int \<Rightarrow> bool" where
  "isMultiPage blob n page =
     (case blob of
        None \<Rightarrow> False
      | Some b \<Rightarrow>
          (SupportsAnimation b \<or> BlobType_of b = BlobTypePDF) \<and>
          ((n \<noteq> 1 \<and> n \<noteq> 0) \<or> (page \<noteq> 1 \<and> page \<noteq> 0)))"

definition applyMultiPageOptions :: "LoadOptions \<Rightarrow> go_int \<Rightarrow> go_int \<Rightarrow> LoadOptions" where
  "applyMultiPageOptions params n page =
     (if page <s - 1 then params\<lparr>Page := - page - 1\<rparr>
      else if n <s - 1 then params\<lparr>N := - n\<rparr>
      else params\<lparr>N := - 1\<rparr>)"

definition recalculateImage ::
  "Image \<Rightarrow> go_int \<Rightarrow> go_int \<Rightarrow> trace \<Rightarrow> (go_int \<times> go_int) \<times> trace" where
  "recalculateImage img n page tr =
     (let numPages = Pages img;
          tr = tr @ [Close img]
      in if 1 <s page \<and> numPages <s page then ((n, numPages), tr)
         else if 1 <s n \<and> numPages <s n then ((numPages, page), tr)
         else ((n, page), tr))"

subsection \<open>\<open>float64\<close>\<close>

text \<open>
  A \<open>float64\<close> is a finite value, an infinity or a NaN. The finite values are kept as
  rationals; every operation rounds its exact result to the nearest value with a 53-bit
  significand, ties to even, with the exponent range of IEEE 754 binary64 (gradual
  underflow below \<open>2 powi (- 1022)\<close>, overflow to an infinity from \<open>2 powi 1024\<close>).
  The two zeros are one value here: the code never divides by a zero that is not the
  conversion of an integer, so the sign of a zero cannot be observed.
\<close>

datatype f64 = Finite rat | PosInf | NegInf | NaN

definition ilog2 :: "rat \<Rightarrow> int" where
  "ilog2 x =
     (let (p, q) = quotient_of x;
          k = bitlen p - bitlen q
      in if 2 powi k \<le> x then k else k - 1)"

definition round_even :: "rat \<Rightarrow> int" where
  "round_even x =
     (let f = \<lfloor>x\<rfloor>; d = x - of_int f
      in if d < 1 / 2 then f
         else if 1 / 2 < d then f + 1
         else if even f then f else f + 1)"

definition ulp :: "rat \<Rightarrow> rat" where
  "ulp x = 2 powi (max (ilog2 \<bar>x\<bar>) (- 1022) - 52)"

definition round_rat :: "rat \<Rightarrow> rat" where
  "round_rat x = of_int (round_even (x / ulp x)) * ulp x"

definition round_f64 :: "rat \<Rightarrow> f64" where
  "round_f64 x =
     (if x = 0 then Finite 0
      else let y = round_rat x
           in if 2 powi 1024 \<le> \<bar>y\<bar> then (if 0 < x then PosInf else NegInf)
              else Finite y)"

text \<open>The conversion \<open>float64(i)\<close> of an \<open>int\<close>.\<close>

definition f64_of_int :: "go_int \<Rightarrow> f64" where
  "f64_of_int i = round_f64 (of_int (sint i))"

fun f64_mul :: "f64 \<Rightarrow> f64 \<Rightarrow> f64" where
  "f64_mul NaN _ = NaN"
| "f64_mul _ NaN = NaN"
| "f64_mul (Finite x) (Finite y) = round_f64 (x * y)"
| "f64_mul (Finite x) PosInf = (if x = 0 then NaN else if 0 < x then PosInf else NegInf)"
| "f64_mul (Finite x) NegInf = (if x = 0 then NaN else if 0 < x then NegInf else PosInf)"
| "f64_mul PosInf (Finite y) = (if y = 0 then NaN else if 0 < y then PosInf else NegInf)"
| "f64_mul NegInf (Finite y) = (if y = 0 then NaN else if 0 < y then NegInf else PosInf)"
| "f64_mul PosInf PosInf = PosInf"
| "f64_mul PosInf NegInf = NegInf"
| "f64_mul NegInf PosInf = NegInf"
| "f64_mul NegInf NegInf = PosInf"

text \<open>Division; a zero divisor is the positive zero.\<close>

fun f64_div :: "f64 \<Rightarrow> f64 \<Rightarrow> f64" where
  "f64_div NaN _ = NaN"
| "f64_div _ NaN = NaN"
| "f64_div (Finite x) (Finite y) =
     (if y = 0 then (if x = 0 then NaN else if 0 < x then PosInf else NegInf)
      else round_f64 (x / y))"
| "f64_div (Finite x) PosInf = Finite 0"
| "f64_div (Finite x) NegInf = Finite 0"
| "f64_div PosInf (Finite y) = (if 0 \<le> y then PosInf else NegInf)"
| "f64_div NegInf (Finite y) = (if 0 \<le> y then NegInf else PosInf)"
| "f64_div PosInf PosInf = NaN"
| "f64_div PosInf NegInf = NaN"
| "f64_div NegInf PosInf = NaN"
| "f64_div NegInf NegInf = NaN"

fun f64_sub :: "f64 \<Rightarrow> f64 \<Rightarrow> f64" where
  "f64_sub NaN _ = NaN"
| "f64_sub _ NaN = NaN"
| "f64_sub (Finite x) (Finite y) = round_f64 (x - y)"
| "f64_sub (Finite x) PosInf = NegInf"
| "f64_sub (Finite x) NegInf = PosInf"
| "f64_sub PosInf (Finite y) = PosInf"
| "f64_sub NegInf (Finite y) = NegInf"
| "f64_sub PosInf PosInf = NaN"
| "f64_sub PosInf NegInf = PosInf"
| "f64_sub NegInf PosInf = NegInf"
| "f64_sub NegInf NegInf = NaN"

text \<open>The comparison \<open>x < y\<close>: false when either side is a NaN.\<close>

fun f64_less :: "f64 \<Rightarrow> f64 \<Rightarrow> bool" where
  "f64_less NaN _ = False"
| "f64_less _ NaN = False"
| "f64_less (Finite x) (Finite y) = (x < y)"
| "f64_less (Finite x) PosInf = True"
| "f64_less (Finite x) NegInf = False"
| "f64_less PosInf _ = False"
| "f64_less NegInf (Finite y) = True"
| "f64_less NegInf PosInf = True"
| "f64_less NegInf NegInf = False"

text \<open>
  \<open>math.Min\<close> and \<open>math.Max\<close>: an infinity of the right sign wins first, then a NaN.
\<close>

definition math_Min :: "f64 \<Rightarrow> f64 \<Rightarrow> f64" where
  "math_Min x y =
     (if x = NegInf \<or> y = NegInf then NegInf
      else if x = NaN \<or> y = NaN then NaN
      else if f64_less x y then x else y)"

definition math_Max :: "f64 \<Rightarrow> f64 \<Rightarrow> f64" where
  "math_Max x y =
     (if x = PosInf \<or> y = PosInf then PosInf
      else if x = NaN \<or> y = NaN then NaN
      else if f64_less y x then x else y)"

text \<open>
  The conversion \<open>int(x)\<close> discards the fraction. Where the result does not fit an
  \<open>int\<close> (or \<open>x\<close> is not finite) Go leaves the value to the implementation: it is the
  parameter \<open>impl\<close>.
\<close>

definition truncate_rat :: "rat \<Rightarrow> int" where
  "truncate_rat x = (if 0 \<le> x then \<lfloor>x\<rfloor> else \<lceil>x\<rceil>)"

definition int_of_f64 :: "(f64 \<Rightarrow> go_int) \<Rightarrow> f64 \<Rightarrow> go_int" where
  "int_of_f64 impl x =
     (case x of
        Finite r \<Rightarrow>
          if - (2 ^ 63) \<le> truncate_rat r \<and> truncate_rat r < 2 ^ 63
          then word_of_int (truncate_rat r) else impl x
      | _ \<Rightarrow> impl x)"

text \<open>Go's \<open>/\<close> on \<open>int\<close> truncates towards zero; the divisor is not zero where it is used.\<close>

definition go_div :: "go_int \<Rightarrow> go_int \<Rightarrow> go_int" where
  "go_div a b = word_of_int (sgn (sint a) * sgn (sint b) * (\<bar>sint a\<bar> div \<bar>sint b\<bar>))"

definition f64_greater :: "f64 \<Rightarrow> f64 \<Rightarrow> bool" where
  "f64_greater x y = f64_less y x"

subsection \<open>Resize and crop\<close>

text \<open>The two libvips operations on a handle, recorded in the trace.\<close>

definition call_ThumbnailImage ::
  "vips_lib \<Rightarrow> Image \<Rightarrow> go_int \<Rightarrow> ThumbnailImageOptions \<Rightarrow> trace \<Rightarrow> (go_error + Image) \<times> trace" where
  "call_ThumbnailImage vips img width opts tr =
     (vips_ThumbnailImage vips img width opts, tr @ [ThumbnailImage img width opts])"

definition call_ExtractAreaMultiPage ::
  "vips_lib \<Rightarrow> Image \<Rightarrow> go_int \<Rightarrow> go_int \<Rightarrow> go_int \<Rightarrow> go_int \<Rightarrow> trace
     \<Rightarrow> (go_error + Image) \<times> trace" where
  "call_ExtractAreaMultiPage vips img left top' w h tr =
     (vips_ExtractAreaMultiPage vips img left top' w h,
      tr @ [ExtractAreaMultiPage img left top' w h])"

text \<open>
  The offsets \<open>left\<close> and \<open>top\<close> that \<open>animatedThumbnailWithCrop\<close> computes from the
  resized image; both stay at their zero value for the other crop policies.
\<close>

definition crop_offsets :: "Interesting \<Rightarrow> Image \<Rightarrow> go_int \<Rightarrow> go_int \<Rightarrow> go_int \<times> go_int" where
  "crop_offsets crop img w h =
     (if crop = InterestingHigh then (Width img - w, PageHeight img - h)
      else if crop = InterestingCentre \<or> crop = InterestingAttention
      then (go_div (Width img - w) 2, go_div (PageHeight img - h) 2)
      else (0, 0))"

text \<open>
  \<open>animatedThumbnailWithCrop\<close> returns the handle as the call leaves it, and the error.
\<close>

definition animatedThumbnailWithCrop ::
  "vips_lib \<Rightarrow> Processor \<Rightarrow> Image \<Rightarrow> go_int \<Rightarrow> go_int \<Rightarrow> Interesting \<Rightarrow> Size \<Rightarrow> trace
     \<Rightarrow> (Image \<times> go_error option) \<times> trace" where
  "animatedThumbnailWithCrop vips v img w h crop size' tr =
     (if size' = SizeDown \<and> Width img <s w \<and> PageHeight img <s h then ((img, None), tr)
      else
        let (width, opts) =
              (if f64_greater (f64_div (f64_of_int w) (f64_of_int h))
                    (f64_div (f64_of_int (Width img)) (f64_of_int (PageHeight img)))
               then (w, \<lparr>Height_opt = MaxHeight v, Size_opt = Some size',
                         Crop_opt = InterestingNone\<rparr>)
               else (MaxWidth v, \<lparr>Height_opt = h, Size_opt = Some size',
                                  Crop_opt = InterestingNone\<rparr>))
        in case call_ThumbnailImage vips img width opts tr of
             (Inl err, tr) \<Rightarrow> ((img, Some err), tr)
           | (Inr img, tr) \<Rightarrow>
               (let (left, top') = crop_offsets crop img w h
                in case call_ExtractAreaMultiPage vips img left top' w h tr of
                     (Inl err, tr) \<Rightarrow> ((img, Some err), tr)
                   | (Inr img, tr) \<Rightarrow> ((img, None), tr)))"

text \<open>
  The extents \<open>FocalThumbnail\<close> compares the target with: width and page height, swapped
  when the EXIF orientation is greater than 4.
\<close>

definition focal_extents :: "Image \<Rightarrow> f64 \<times> f64" where
  "focal_extents img =
     (if 4 <s Orientation img
      then (f64_of_int (PageHeight img), f64_of_int (Width img))
      else (f64_of_int (Width img), f64_of_int (PageHeight img)))"

text \<open>The offsets \<open>left\<close> and \<open>top\<close> of \<open>FocalThumbnail\<close>, before the conversion to \<open>int\<close>.\<close>

definition focal_offsets :: "Image \<Rightarrow> go_int \<Rightarrow> go_int \<Rightarrow> f64 \<Rightarrow> f64 \<Rightarrow> f64 \<times> f64" where
  "focal_offsets img w h fx fy =
     (let left = f64_sub (f64_mul (f64_of_int (Width img)) fx)
                   (f64_div (f64_of_int w) (Finite 2));
          top' = f64_sub (f64_mul (f64_of_int (PageHeight img)) fy)
                  (f64_div (f64_of_int h) (Finite 2));
          left = math_Max (Finite 0) (math_Min left (f64_of_int (Width img - w)));
          top' = math_Max (Finite 0) (math_Min top' (f64_of_int (PageHeight img - h)))
      in (left, top'))"

definition FocalThumbnail ::
  "vips_lib \<Rightarrow> (f64 \<Rightarrow> go_int) \<Rightarrow> Processor \<Rightarrow> Image \<Rightarrow> go_int \<Rightarrow> go_int \<Rightarrow> f64 \<Rightarrow> f64 \<Rightarrow> trace
     \<Rightarrow> (Image \<times> go_error option) \<times> trace" where
  "FocalThumbnail vips impl v img w h fx fy tr =
     (let (imageWidth, imageHeight) = focal_extents img;
          (width, opts) =
              (if f64_greater (f64_div (f64_of_int w) (f64_of_int h))
                    (f64_div imageWidth imageHeight)
               then (w, \<lparr>Height_opt = MaxHeight v, Size_opt = None,
                         Crop_opt = InterestingNone\<rparr>)
               else (MaxWidth v, \<lparr>Height_opt = h, Size_opt = None,
                                  Crop_opt = InterestingNone\<rparr>))
      in case call_ThumbnailImage vips img width opts tr of
           (Inl err, tr) \<Rightarrow> ((img, Some err), tr)
         | (Inr img, tr) \<Rightarrow>
             (let (left, top') = focal_offsets img w h fx fy
              in case call_ExtractAreaMultiPage vips img
                        (int_of_f64 impl left) (int_of_f64 impl top') w h tr of
                   (Inl err, tr) \<Rightarrow> ((img, Some err), tr)
                 | (Inr img, tr) \<Rightarrow> ((img, None), tr)))"

subsection \<open>Loading\<close>

text \<open>
  \<open>newImageFromBlob\<close> and \<open>newThumbnailFromBlob\<close>. The method timers and the close of the
  source that \<open>contextDefer\<close> postpones to the end of the request are left out: they do not
  change what the functions return.
\<close>

definition newImageFromBlob ::
  "imagor_pkg \<Rightarrow> vips_lib \<Rightarrow> Processor \<Rightarrow> Blob option \<Rightarrow> LoadOptions \<Rightarrow> trace
     \<Rightarrow> (go_error + Image) \<times> trace" where
  "newImageFromBlob imagor vips v blob options tr =
     (case blob of
        None \<Rightarrow> (Inl (ImagorError (ErrNotFound imagor)), tr)
      | Some b \<Rightarrow>
          if IsEmpty b then (Inl (ImagorError (ErrNotFound imagor)), tr)
          else if BlobType_of b = BlobTypeMemory
          then (vips_NewImageFromMemory vips b, tr @ [NewImageFromMemory])
          else if BlobType_of b = BlobTypePNG \<and> 0 <s Size_of b \<and>
                  PNGBufferThreshold v <s Size_of b
          then (case ReadAll_err b of
                  Some err \<Rightarrow> (Inl err, tr)
                | None \<Rightarrow>
                    (vips_NewImageFromBuffer vips b options, tr @ [NewImageFromBuffer options]))
          else (case NewReader_err b of
                  Some err \<Rightarrow> (Inl err, tr)
                | None \<Rightarrow>
                    (case (vips_NewImageFromSource vips b options, FallbackFunc v) of
                       (Inl err, Some fallback) \<Rightarrow>
                         (fallback b options,
                          tr @ [NewImageFromSource options, SourceClose, Fallback options])
                     | (r, _) \<Rightarrow> (r, tr @ [NewImageFromSource options]))))"

definition newThumbnailFromBlob ::
  "imagor_pkg \<Rightarrow> vips_lib \<Rightarrow> Blob option \<Rightarrow> go_int \<Rightarrow> go_int \<Rightarrow> Interesting \<Rightarrow> Size
     \<Rightarrow> LoadOptions \<Rightarrow> trace \<Rightarrow> (go_error + Image) \<times> trace" where
  "newThumbnailFromBlob imagor vips blob width height crop size' options tr =
     (case blob of
        None \<Rightarrow> (Inl (ImagorError (ErrNotFound imagor)), tr)
      | Some b \<Rightarrow>
          if IsEmpty b then (Inl (ImagorError (ErrNotFound imagor)), tr)
          else (case NewReader_err b of
                  Some err \<Rightarrow> (Inl err, tr)
                | None \<Rightarrow>
                    (vips_NewThumbnailSource vips b width height crop size' options,
                     tr @ [NewThumbnailSource width height crop size' options])))"

text \<open>A Go pair \<open>(*vips.Image, error)\<close> from a loader's result.\<close>

definition go_pair :: "go_error + Image \<Rightarrow> Image option \<times> go_error option" where
  "go_pair r = (case r of Inl err \<Rightarrow> (None, Some err) | Inr img \<Rightarrow> (Some img, None))"

text \<open>
  A call either returns or, were it to call a method on a \<open>nil\<close> handle, panics.
  \<open>CheckResolution\<close> returns a \<open>nil\<close> handle only together with an error, so the
  panics below are the branches of the model that no run reaches.
\<close>

datatype 'a outcome = Returns 'a | Panics

definition newThumbnailFallback ::
  "imagor_pkg \<Rightarrow> vips_lib \<Rightarrow> Processor \<Rightarrow> Blob option \<Rightarrow> go_int \<Rightarrow> go_int \<Rightarrow> Interesting
     \<Rightarrow> Size \<Rightarrow> LoadOptions \<Rightarrow> trace \<Rightarrow> (Image option \<times> go_error option) outcome \<times> trace" where
  "newThumbnailFallback imagor vips v blob width height crop size' options tr =
     (case newImageFromBlob imagor vips v blob options tr of
        (r, tr) \<Rightarrow>
          (case CheckResolution imagor v (fst (go_pair r)) (snd (go_pair r)) tr of
             ((img, Some err), tr) \<Rightarrow> (Returns (img, Some err), tr)
           | ((None, None), tr) \<Rightarrow> (Panics, tr)
           | ((Some img, None), tr) \<Rightarrow>
               (case call_ThumbnailImage vips img width
                       \<lparr>Height_opt = height, Size_opt = Some size', Crop_opt = crop\<rparr> tr of
                  (Inl err, tr) \<Rightarrow> (Returns (Some img, Some err), tr @ [Close img])
                | (Inr img, tr) \<Rightarrow>
                    (case WrapErr imagor None tr of
                       (err, tr) \<Rightarrow> (Returns (Some img, err), tr)))))"

subsection \<open>\<open>NewThumbnail\<close>\<close>

text \<open>
  \<open>NewThumbnail\<close> calls itself after \<open>recalculateImage\<close>. The first argument of the
  model bounds the depth of the calls: \<open>None\<close> is the answer of a call that would have
  to go deeper. The blob is not \<open>nil\<close>.
\<close>

text \<open>The load options that \<open>NewThumbnail\<close> starts from.\<close>

definition base_options :: "Processor \<Rightarrow> go_int \<Rightarrow> LoadOptions" where
  "base_options v dpi =
     (let options = LoadOptions_zero;
          options = (if 0 <s dpi then options\<lparr>Dpi := dpi\<rparr> else options)
      in options\<lparr>Unlimited_opt := Unlimited v\<rparr>)"

fun NewThumbnail ::
  "nat \<Rightarrow> imagor_pkg \<Rightarrow> vips_lib \<Rightarrow> Processor \<Rightarrow> Blob \<Rightarrow> go_int \<Rightarrow> go_int \<Rightarrow> Interesting
     \<Rightarrow> Size \<Rightarrow> go_int \<Rightarrow> go_int \<Rightarrow> go_int \<Rightarrow> trace
     \<Rightarrow> ((Image option \<times> go_error option) outcome \<times> trace) option" where
  "NewThumbnail 0 imagor vips v blob width height crop size' n page dpi tr = None"
| "NewThumbnail (Suc depth) imagor vips v blob width height crop size' n page dpi tr =
     (let options = base_options v dpi in
      if isMultiPage (Some blob) n page then
        (let options = applyMultiPageOptions options n page in
         if crop = InterestingNone \<or> size' = SizeForce then
           (case newImageFromBlob imagor vips v (Some blob) options tr of
              (Inl err, tr) \<Rightarrow>
                (case WrapErr imagor (Some err) tr of
                   (err, tr) \<Rightarrow> Some (Returns (None, err), tr))
            | (Inr img, tr) \<Rightarrow>
                if 1 <s n \<or> 1 <s page then
                  (case recalculateImage img n page tr of
                     ((n, page), tr) \<Rightarrow>
                       NewThumbnail depth imagor vips v blob width height crop size'
                         (- n) (- page) dpi tr)
                else
                  (case CheckResolution imagor v (Some img) None tr of
                     ((_, Some err), tr) \<Rightarrow> Some (Returns (None, Some err), tr)
                   | ((_, None), tr) \<Rightarrow>
                       (case call_ThumbnailImage vips img width
                               \<lparr>Height_opt = height, Size_opt = Some size', Crop_opt = crop\<rparr>
                               tr of
                          (Inl err, tr) \<Rightarrow>
                            (case WrapErr imagor (Some err) (tr @ [Close img]) of
                               (err, tr) \<Rightarrow> Some (Returns (None, err), tr))
                        | (Inr img, tr) \<Rightarrow>
                            (case WrapErr imagor None tr of
                               (err, tr) \<Rightarrow>
                                 (case CheckResolution imagor v (Some img) err tr of
                                    (r, tr) \<Rightarrow> Some (Returns r, tr))))))
         else
           (case newImageFromBlob imagor vips v (Some blob) options tr of
              (r, tr) \<Rightarrow>
                (case CheckResolution imagor v (fst (go_pair r)) (snd (go_pair r)) tr of
                   ((_, Some err), tr) \<Rightarrow>
                     (case WrapErr imagor (Some err) tr of
                        (err, tr) \<Rightarrow> Some (Returns (None, err), tr))
                 | ((None, None), tr) \<Rightarrow> Some (Panics, tr)
                 | ((Some img, None), tr) \<Rightarrow>
                     if 1 <s n \<or> 1 <s page then
                       (case recalculateImage img n page tr of
                          ((n, page), tr) \<Rightarrow>
                            NewThumbnail depth imagor vips v blob width height crop size'
                              (- n) (- page) dpi tr)
                     else
                       (case animatedThumbnailWithCrop vips v img width height crop size' tr of
                          ((img, Some err), tr) \<Rightarrow>
                            (case WrapErr imagor (Some err) (tr @ [Close img]) of
                               (err, tr) \<Rightarrow> Some (Returns (None, err), tr))
                        | ((img, None), tr) \<Rightarrow>
                            (case WrapErr imagor None tr of
                               (err, tr) \<Rightarrow>
                                 (case CheckResolution imagor v (Some img) err tr of
                                    (r, tr) \<Rightarrow> Some (Returns r, tr)))))))
      else
        (if BlobType_of blob = BlobTypeJPEG \<or> BlobType_of blob = BlobTypeGIF \<or>
            BlobType_of blob = BlobTypeWEBP
         then
           (case newThumbnailFromBlob imagor vips (Some blob) width height crop size' options tr of
              (r, tr) \<Rightarrow>
                (case WrapErr imagor (snd (go_pair r)) tr of
                   (err, tr) \<Rightarrow>
                     (case CheckResolution imagor v (fst (go_pair r)) err tr of
                        (r, tr) \<Rightarrow> Some (Returns r, tr))))
         else
           (case newThumbnailFallback imagor vips v (Some blob) width height crop size' options tr of
              (Panics, tr) \<Rightarrow> Some (Panics, tr)
            | (Returns (img, err), tr) \<Rightarrow>
                (case WrapErr imagor err tr of
                   (err, tr) \<Rightarrow>
                     (case CheckResolution imagor v img err tr of
                        (r, tr) \<Rightarrow> Some (Returns r, tr))))))"

subsection \<open>Sample values\<close>

text \<open>
  A sample instance of the package-level errors and of the processor that
  \<open>NewProcessor\<close> builds (limits 9999, 9999 and 81000000), for the concrete
  evaluations below. No general theorem depends on them.
\<close>

definition imagor_sample :: imagor_pkg where
  "imagor_sample =
     \<lparr>ErrNotFound = NewError ''not found'' 404,
      ErrUnsupportedFormat = NewError ''unsupported format'' 406,
      ErrMaxResolutionExceeded = NewError ''maximum resolution exceeded'' 422\<rparr>"

definition NewProcessor :: Processor where
  "NewProcessor =
     \<lparr>FallbackFunc = None, MaxWidth = 9999, MaxHeight = 9999, MaxResolution = 81000000,
      Unlimited = False, PNGBufferThreshold = 1024 * 1024\<rparr>"

definition image_of :: "go_int \<Rightarrow> go_int \<Rightarrow> go_int \<Rightarrow> go_int \<Rightarrow> Image" where
  "image_of w ph pages orientation =
     \<lparr>Width = w, Height = ph * pages, PageHeight = ph, Pages = pages,
      Orientation = orientation\<rparr>"

text \<open>
  A sample resize in the manner of libvips: an image whose orientation is greater than 4
  is first turned upright (width and page height change places), then fitted into the box
  \<open>width \<times> height\<close> keeping its aspect ratio; under \<open>SizeDown\<close> an image that would grow is
  left as it is.
\<close>

definition sample_ThumbnailImage :: "Image \<Rightarrow> go_int \<Rightarrow> ThumbnailImageOptions \<Rightarrow> go_error + Image" where
  "sample_ThumbnailImage img width opts =
     (let (W, H) = (if 4 <s Orientation img then (sint (PageHeight img), sint (Width img))
                    else (sint (Width img), sint (PageHeight img)));
          bw = sint width; bh = sint (Height_opt opts)
      in if W \<le> 0 \<or> H \<le> 0 \<or> bw \<le> 0 \<or> bh \<le> 0
         then Inl (OtherError ''thumbnail: bad dimensions'')
         else
           let (W', H') = (if bw * H \<le> bh * W then (bw, max 1 (H * bw div W))
                           else (max 1 (W * bh div H), bh));
               (W', H') = (if Size_opt opts = Some SizeDown \<and> (W < W' \<or> H < H')
                           then (W, H) else (W', H'))
           in Inr (img\<lparr>Width := word_of_int W', PageHeight := word_of_int H',
                        Height := word_of_int H' * Pages img, Orientation := 1\<rparr>))"

text \<open>A sample extraction: the area must lie inside every page.\<close>

definition sample_ExtractAreaMultiPage ::
  "Image \<Rightarrow> go_int \<Rightarrow> go_int \<Rightarrow> go_int \<Rightarrow> go_int \<Rightarrow> go_error + Image" where
  "sample_ExtractAreaMultiPage img left top' w h =
     (if 0 \<le> sint left \<and> 0 \<le> sint top' \<and> 0 < sint w \<and> 0 < sint h \<and>
         sint left + sint w \<le> sint (Width img) \<and> sint top' + sint h \<le> sint (PageHeight img)
      then Inr (img\<lparr>Width := w, PageHeight := h, Height := h * Pages img\<rparr>)
      else Inl (OtherError ''extract_area: bad extract area''))"

text \<open>
  A sample library whose loaders decode every blob to a 100 by 100 image of three frames,
  and a sample animated GIF.
\<close>

definition vips_sample :: vips_lib where
  "vips_sample =
     \<lparr>vips_NewImageFromMemory = (\<lambda>b. Inr (image_of 100 100 3 1)),
      vips_NewImageFromBuffer = (\<lambda>b options. Inr (image_of 100 100 3 1)),
      vips_NewImageFromSource = (\<lambda>b options. Inr (image_of 100 100 3 1)),
      vips_NewThumbnailSource =
        (\<lambda>b width height crop size' options. Inr (image_of 100 100 3 1)),
      vips_ThumbnailImage = sample_ThumbnailImage,
      vips_ExtractAreaMultiPage = sample_ExtractAreaMultiPage\<rparr>"

definition gif_sample :: Blob where
  "gif_sample =
     \<lparr>IsEmpty = False, BlobType_of = BlobTypeGIF, SupportsAnimation = True,
      Size_of = 4096, ReadAll_err = None, NewReader_err = None\<rparr>"

text \<open>A message as libvips writes it, ending in a line feed.\<close>

definition premature_end :: string where
  "premature_end = ''VipsJpeg: premature end of JPEG image'' @ [CHR 0x0A]"

text \<open>A sample answer of the platform to a conversion \<open>int(x)\<close> out of range.\<close>

definition impl_sample :: "f64 \<Rightarrow> go_int" where
  "impl_sample x = - (2 ^ 63)"

text \<open>A C \<open>int\<close> converted to a Go \<open>int\<close>: libvips stores every extent as a C \<open>int\<close>.\<close>

definition is_c_int :: "go_int \<Rightarrow> bool" where
  "is_c_int x = (- (2 ^ 31) \<le> sint x \<and> sint x < 2 ^ 31)"

text \<open>
  The rule that selects the dimension to scale by: the aspect ratio of the target,
  computed in \<open>float64\<close>, is greater than that of the extents \<open>iw\<close> and \<open>ih\<close>.
\<close>

definition aspect_greater :: "go_int \<Rightarrow> go_int \<Rightarrow> f64 \<Rightarrow> f64 \<Rightarrow> bool" where
  "aspect_greater w h iw ih =
     f64_greater (f64_div (f64_of_int w) (f64_of_int h)) (f64_div iw ih)"

text \<open>
  The selection rule in the words of the specification: scale by width, with the height
  capped at \<open>MaxHeight\<close>, when the aspect ratio of the target is the greater one, and
  otherwise by height, with the width capped at \<open>MaxWidth\<close>; no crop in either case.
  The result is the width and the options of the resize call.
\<close>

definition resize_args ::
  "Processor \<Rightarrow> go_int \<Rightarrow> go_int \<Rightarrow> f64 \<Rightarrow> f64 \<Rightarrow> Size option \<Rightarrow> go_int \<times> ThumbnailImageOptions" where
  "resize_args v w h iw ih sz =
     (if aspect_greater w h iw ih
      then (w, \<lparr>Height_opt = MaxHeight v, Size_opt = sz, Crop_opt = InterestingNone\<rparr>)
      else (MaxWidth v, \<lparr>Height_opt = h, Size_opt = sz, Crop_opt = InterestingNone\<rparr>))"

section \<open>Properties\<close>

subsection \<open>Machine integers\<close>

lemma sint_mult_c_int:
  assumes "is_c_int a" and "is_c_int b"
  shows "sint (a * b) = sint a * sint b"
proof -
  have a: "\<bar>sint a\<bar> \<le> 2 ^ 31" and b: "\<bar>sint b\<bar> \<le> 2 ^ 31"
    using assms by (auto simp: is_c_int_def)
  have "\<bar>sint a * sint b\<bar> \<le> 2 ^ 31 * 2 ^ 31"
    unfolding abs_mult using a b by (intro mult_mono) auto
  then have "- (2 ^ 63) \<le> sint a * sint b \<and> sint a * sint b < 2 ^ 63"
    by auto
  then have "signed_take_bit 63 (sint a * sint b) = sint a * sint b"
    by (simp add: signed_take_bit_int_eq_self)
  then show ?thesis
    by (simp add: sint_word_ariths)
qed

subsection \<open>The error classifier\<close>

text \<open>
  C10. \<open>WrapErr\<close> keeps \<open>nil\<close> and keeps an error that is already an \<open>imagor.Error\<close>;
  so wrapping the result of \<open>WrapErr\<close> again returns that result, for every error, and
  reports nothing more.
\<close>

theorem WrapErr_idempotent:
  "WrapErr imagor None tr = (None, tr) \<and>
   WrapErr imagor (Some (ImagorError e)) tr = (Some (ImagorError e), tr) \<and>
   WrapErr imagor (fst (WrapErr imagor err tr)) tr' = (fst (WrapErr imagor err tr), tr')"
proof -
  have nil: "WrapErr imagor None tr = (None, tr)" for tr
    by (simp add: WrapErr_def)
  have cls: "WrapErr imagor (Some (ImagorError e)) tr = (Some (ImagorError e), tr)" for e tr
    by (simp add: WrapErr_def)
  have "WrapErr imagor (fst (WrapErr imagor err tr)) tr' = (fst (WrapErr imagor err tr), tr')"
  proof (cases err)
    case None
    then show ?thesis by (simp add: nil)
  next
    case (Some e)
    show ?thesis
    proof (cases e)
      case (ImagorError x)
      with Some show ?thesis by (simp add: cls)
    next
      case (OtherError s)
      with Some show ?thesis
        by (simp add: WrapErr_def Let_def)
    qed
  qed
  with nil cls show ?thesis by simp
qed

text \<open>
  C8, as amended. For an error that is not an \<open>imagor.Error\<close>: when the trimmed message
  starts with \<open>VipsForeignLoad:\<close> and ends with \<open>is not in a known format\<close>, \<open>WrapErr\<close>
  returns the unsupported format error and reports nothing; otherwise it reports the
  error to Sentry and then returns an \<open>imagor.Error\<close> with code 406 that carries the
  trimmed message. So the report is made exactly when the message does not match, and
  the value returned is the unsupported format error exactly when the message matches or
  the unsupported format error is itself the error with that trimmed message and code 406.
\<close>

theorem WrapErr_classifies:
  "WrapErr imagor (Some (OtherError text)) tr =
     (if prefix ''VipsForeignLoad:'' (TrimSpace text) \<and>
         suffix ''is not in a known format'' (TrimSpace text)
      then (Some (ImagorError (ErrUnsupportedFormat imagor)), tr)
      else (Some (ImagorError (NewError (TrimSpace text) 406)),
            tr @ [CaptureException (OtherError text)])) \<and>
   (fst (WrapErr imagor (Some (OtherError text)) tr) =
       Some (ImagorError (ErrUnsupportedFormat imagor)) \<longleftrightarrow>
     (prefix ''VipsForeignLoad:'' (TrimSpace text) \<and>
      suffix ''is not in a known format'' (TrimSpace text)) \<or>
     ErrUnsupportedFormat imagor = NewError (TrimSpace text) 406) \<and>
   (snd (WrapErr imagor (Some (OtherError text)) tr) = tr \<longleftrightarrow>
     prefix ''VipsForeignLoad:'' (TrimSpace text) \<and>
     suffix ''is not in a known format'' (TrimSpace text))"
  by (auto simp add: WrapErr_def Let_def HasPrefix_def HasSuffix_def)

text \<open>
  The message that the wrapped error carries is not the original one when that has white
  space around it: the line feed that ends a libvips message is gone. And an error whose
  message is that of the unsupported format error, which does not match the pattern,
  comes back as the unsupported format error.
\<close>

theorem WrapErr_original_message_counterexample:
  "fst (WrapErr imagor_sample (Some (OtherError premature_end)) []) =
     Some (ImagorError (NewError ''VipsJpeg: premature end of JPEG image'' 406)) \<and>
   ''VipsJpeg: premature end of JPEG image'' \<noteq> premature_end \<and>
   fst (WrapErr imagor_sample (Some (OtherError ''unsupported format'')) []) =
     Some (ImagorError (ErrUnsupportedFormat imagor_sample)) \<and>
   \<not> prefix ''VipsForeignLoad:'' (TrimSpace ''unsupported format'')"
  by code_simp

subsection \<open>The resolution guard\<close>

text \<open>
  C2. For a decoded image (a handle that is not \<open>nil\<close>, no error) whose width and height
  are C \<open>int\<close>s, \<open>CheckResolution\<close> closes the image and fails with the maximum resolution
  error exactly when \<open>Unlimited\<close> is unset and the width is greater than \<open>MaxWidth\<close>, or the
  page height greater than \<open>MaxHeight\<close>, or width times height greater than
  \<open>MaxResolution\<close>; otherwise, so also when the product equals \<open>MaxResolution\<close> and always
  when \<open>Unlimited\<close> is set, it returns the image as it is.
\<close>

theorem CheckResolution_guard:
  assumes "is_c_int (Width img)" and "is_c_int (Height img)"
  shows "CheckResolution imagor v (Some img) None tr =
     (if \<not> Unlimited v \<and>
         (sint (MaxWidth v) < sint (Width img) \<or>
          sint (MaxHeight v) < sint (PageHeight img) \<or>
          sint (MaxResolution v) < sint (Width img) * sint (Height img))
      then ((None, Some (ImagorError (ErrMaxResolutionExceeded imagor))), tr @ [Close img])
      else ((Some img, None), tr))"
  using sint_mult_c_int [OF assms]
  by (simp add: CheckResolution_def word_sless_alt)

text \<open>
  At the limits of \<open>NewProcessor\<close>: 9000 by 9000 is exactly \<open>MaxResolution\<close> and passes,
  9000 by 9001 fails.
\<close>

theorem CheckResolution_guard_witness:
  "is_c_int (Width (image_of 9000 9000 1 1)) \<and> is_c_int (Height (image_of 9000 9000 1 1)) \<and>
   sint (Width (image_of 9000 9000 1 1)) * sint (Height (image_of 9000 9000 1 1)) =
     sint (MaxResolution NewProcessor) \<and>
   CheckResolution imagor_sample NewProcessor (Some (image_of 9000 9000 1 1)) None [] =
     ((Some (image_of 9000 9000 1 1), None), []) \<and>
   CheckResolution imagor_sample NewProcessor (Some (image_of 9000 9001 1 1)) None [] =
     ((None, Some (ImagorError (ErrMaxResolutionExceeded imagor_sample))),
      [Close (image_of 9000 9001 1 1)])"
proof -
  have a: "is_c_int (Width (image_of 9000 9000 1 1))" "is_c_int (Height (image_of 9000 9000 1 1))"
    by (simp_all add: is_c_int_def image_of_def)
  have b: "is_c_int (Width (image_of 9000 9001 1 1))" "is_c_int (Height (image_of 9000 9001 1 1))"
    by (simp_all add: is_c_int_def image_of_def)
  show ?thesis
    using a CheckResolution_guard [OF a, of imagor_sample NewProcessor "[]"]
      CheckResolution_guard [OF b, of imagor_sample NewProcessor "[]"]
    by (simp add: image_of_def NewProcessor_def)
qed

subsection \<open>The frame recalculation\<close>

text \<open>
  C9. \<open>recalculateImage\<close> closes the handle and clamps at most one of the two indices:
  the page when it is greater than 1 and than the frame count, and then \<open>n\<close> is returned
  as it was, even when it exceeds the frame count too; \<open>n\<close> only when the page is not
  clamped.
\<close>

theorem recalculateImage_page_priority:
  "recalculateImage img n page tr =
     ((if 1 <s page \<and> Pages img <s page then (n, Pages img)
       else if 1 <s n \<and> Pages img <s n then (Pages img, page)
       else (n, page)),
      tr @ [Close img]) \<and>
   (fst (fst (recalculateImage img n page tr)) = n \<or>
    snd (fst (recalculateImage img n page tr)) = page)"
  by (simp add: recalculateImage_def Let_def)

subsection \<open>Thumbnail with crop\<close>

text \<open>
  C7. Under \<open>SizeDown\<close>, when the width of the image is less than the target width and its
  page height less than the target height, \<open>animatedThumbnailWithCrop\<close> returns the image
  as it is, without an error, and calls neither the resize nor the extraction: the trace
  is as it was.
\<close>

theorem animatedThumbnailWithCrop_down_noop:
  assumes "size' = SizeDown" and "Width img <s w" and "PageHeight img <s h"
  shows "animatedThumbnailWithCrop vips v img w h crop size' tr = ((img, None), tr)"
  using assms by (simp add: animatedThumbnailWithCrop_def)

text \<open>A source of 50 by 50 and a target of 200 by 200.\<close>

theorem animatedThumbnailWithCrop_down_noop_witness:
  "Width (image_of 50 50 1 1) <s 200 \<and> PageHeight (image_of 50 50 1 1) <s 200 \<and>
   animatedThumbnailWithCrop vips_sample NewProcessor (image_of 50 50 1 1) 200 200
     InterestingCentre SizeDown [] = ((image_of 50 50 1 1, None), [])"
proof -
  have a: "Width (image_of 50 50 1 1) <s 200" "PageHeight (image_of 50 50 1 1) <s 200"
    by (simp_all add: image_of_def)
  show ?thesis
    using a animatedThumbnailWithCrop_down_noop
      [OF refl a, of vips_sample NewProcessor InterestingCentre "[]"]
    by simp
qed

end
